theory Spec2Isabelle
  imports Main
begin

section \<open>Data model\<close>

text \<open>
  The scheduling core of the content studio: the \<open>ScheduledPost\<close> rows, the repository
  that mutates them (\<open>repositories/scheduled_post.py\<close>) and the service that drives them
  against the Late API (\<open>services/scheduler_service.py\<close>).

  UUIDs are natural numbers, instants (\<open>datetime\<close>) are integers, Python's \<open>str | None\<close>
  is \<open>string option\<close>.
\<close>

type_synonym uuid = nat
type_synonym datetime = int
type_synonym config = "(string \<times> string) list"

datatype ScheduleStatus =
  DRAFT | PENDING_SYNC | SCHEDULED | PUBLISHING | PUBLISHED | FAILED | CANCELLED

datatype LatePostStatus =
  LATE_PENDING | LATE_PROCESSING | LATE_PUBLISHED | LATE_FAILED | LATE_PARTIAL

datatype ScheduleMode = SINGLE_PLATFORM | MULTI_PLATFORM

datatype PlatformType =
  TIKTOK | YOUTUBE | INSTAGRAM | REDDIT | LINKEDIN | TWITTER | FACEBOOK
  | PINTEREST | BLUESKY | THREADS | GOOGLE_BUSINESS

datatype MediaType = IMAGE | VIDEO | GIF | DOCUMENT | THUMBNAIL

record ScheduledPost =
  post_id :: uuid
  content_library_item_id :: uuid
  connected_account_id :: uuid
  platform :: PlatformType
  scheduled_for :: datetime
  timezone :: string
  status :: ScheduleStatus
  late_status :: "LatePostStatus option"
  schedule_mode :: ScheduleMode
  batch_id :: "string option"
  late_post_id :: "string option"
  platform_post_id :: "string option"
  platform_post_url :: "string option"
  published_at :: "datetime option"
  failed_at :: "datetime option"
  error_message :: "string option"
  retry_count :: int
  platform_specific_config :: "config option"
  created_at :: datetime

record ConnectedAccount =
  account_id :: uuid
  account_platform :: PlatformType
  late_account_id :: string
  is_active :: bool

record MediaAttachment =
  late_media_url :: "string option"
  media_type :: MediaType
  alt_text :: "string option"

record ContentLibraryItem =
  content_id :: uuid
  title :: "string option"
  body :: "string option"
  hashtags :: "string list"
  mentions :: "string list"
  media_attachments :: "MediaAttachment list"
  is_deleted :: bool

text \<open>
  Python truthiness of a \<open>str | None\<close>: \<open>None\<close> and the empty string are false.
\<close>

fun truthy :: "string option \<Rightarrow> bool" where
  "truthy None = False"
| "truthy (Some s) = (s \<noteq> [])"

section \<open>Errors and the Late API\<close>

text \<open>
  The service raises \<open>ValueError\<close> with a formatted message, and the Late client raises
  \<open>LateApiError\<close> (or a subclass), whose \<open>str\<close> is its message. The messages of the
  \<open>ValueError\<close>s are kept as constructors. \<open>TypeError\<close> is what \<open>json.dumps\<close> raises
  on a \<open>datetime\<close>.
\<close>

datatype value_error =
    AccountNotFound uuid
  | AccountNotActive uuid
  | AccountPlatformNotActive PlatformType
  | ContentNotFound uuid
  | PostNotFound uuid
  | CannotReschedule ScheduleStatus
  | CannotCancelPublished
  | AlreadyPublished
  | ContentOrAccountNotFound
  | NotALatePostStatus string

datatype error = ValueError value_error | LateApiError string | TypeError

record LateMediaItem =
  item_url :: "string option"
  item_type :: MediaType
  item_alt_text :: "string option"

record LatePlatformTarget =
  target_platform :: PlatformType
  target_account_id :: string
  target_post_id :: "string option"
  target_post_url :: "string option"

record LatePostCreate =
  create_content :: "string option"
  create_title :: "string option"
  create_media_items :: "LateMediaItem list"
  create_platforms :: "LatePlatformTarget list"
  create_scheduled_for :: "datetime option"
  create_publish_now :: bool
  create_timezone :: "string option"
  create_hashtags :: "string list"
  create_mentions :: "string list"

record LatePostUpdate =
  update_scheduled_for :: "datetime option"
  update_timezone :: "string option"

record LatePost =
  late_id :: string
  late_post_status :: string
  late_platforms :: "LatePlatformTarget list"

text \<open>
  A request sent to the external service. The world keeps the list of the requests issued
  so far, so that "an external create request is issued" is a statement about that list.
\<close>

datatype LateCall =
    CreatePost LatePostCreate
  | UpdatePost string LatePostUpdate
  | DeletePost string

text \<open>
  The external service is not under the program's control: for a request that has been
  sent, \<open>LateApiClient\<close> gives, from the requests issued so far and the request at hand,
  either the message of the \<open>LateApiError\<close> that \<open>_request\<close> raises on the answer or
  the value parsed from it. What the client's own methods do before a request is sent is
  defined below, after the session.
\<close>

record LateApiClient =
  create_post :: "LateCall list \<Rightarrow> LatePostCreate \<Rightarrow> string + LatePost"
  update_post :: "LateCall list \<Rightarrow> string \<Rightarrow> LatePostUpdate \<Rightarrow> string + LatePost"
  delete_post :: "LateCall list \<Rightarrow> string \<Rightarrow> string + bool"

text \<open>\<open>LatePostStatus(late_post.status)\<close>: the enum's constructor raises \<open>ValueError\<close> on a
  string that is not one of its values.\<close>

definition LatePostStatus_of :: "string \<Rightarrow> error + LatePostStatus" where
  "LatePostStatus_of s =
     (if s = ''pending'' then Inr LATE_PENDING
      else if s = ''processing'' then Inr LATE_PROCESSING
      else if s = ''published'' then Inr LATE_PUBLISHED
      else if s = ''failed'' then Inr LATE_FAILED
      else if s = ''partial'' then Inr LATE_PARTIAL
      else Inl (ValueError (NotALatePostStatus s)))"

section \<open>The session and the tables\<close>

text \<open>
  \<open>posts\<close> are the rows as the open session sees them (every repository mutator flushes),
  \<open>committed\<close> the rows as of the last \<open>session.commit()\<close>. An ORM object is the session's
  row of the same primary key, so \<open>flush\<close> writes the object over the rows with its id.
  \<open>now\<close> is the clock read by \<open>datetime.now(UTC)\<close> and by the \<open>created_at\<close> default,
  \<open>next_id\<close> the primary key given to the next inserted row, \<open>late_api_key\<close> the
  setting \<open>LATER_DEV_API_KEY\<close>.
\<close>

record world =
  posts :: "ScheduledPost list"
  committed :: "ScheduledPost list"
  accounts :: "ConnectedAccount list"
  contents :: "ContentLibraryItem list"
  next_id :: uuid
  now :: datetime
  late_calls :: "LateCall list"
  late_api_key :: "string option"

definition flush :: "ScheduledPost \<Rightarrow> world \<Rightarrow> world" where
  "flush p w = w\<lparr>posts := map (\<lambda>q. if post_id q = post_id p then p else q) (posts w)\<rparr>"

definition commit :: "world \<Rightarrow> world" where
  "commit w = w\<lparr>committed := posts w\<rparr>"

definition issue :: "LateCall \<Rightarrow> world \<Rightarrow> world" where
  "issue c w = w\<lparr>late_calls := late_calls w @ [c]\<rparr>"

subsection \<open>Reads\<close>

definition get_by_id_with_relations :: "world \<Rightarrow> uuid \<Rightarrow> ScheduledPost option" where
  "get_by_id_with_relations w pid = find (\<lambda>p. post_id p = pid) (posts w)"

text \<open>\<open>ConnectedAccountRepository.get_by_id\<close>.\<close>

definition get_account :: "world \<Rightarrow> uuid \<Rightarrow> ConnectedAccount option" where
  "get_account w aid = find (\<lambda>a. account_id a = aid) (accounts w)"

text \<open>\<open>ContentLibraryRepository.get_by_id_with_media\<close>: soft-deleted items are not found.\<close>

definition get_by_id_with_media :: "world \<Rightarrow> uuid \<Rightarrow> ContentLibraryItem option" where
  "get_by_id_with_media w cid =
     find (\<lambda>c. content_id c = cid \<and> \<not> is_deleted c) (contents w)"

text \<open>\<open>where status == PENDING_SYNC order by created_at asc\<close>.\<close>

definition get_pending_sync :: "world \<Rightarrow> ScheduledPost list" where
  "get_pending_sync w =
     sort_key created_at (filter (\<lambda>p. status p = PENDING_SYNC) (posts w))"

section \<open>ScheduledPostRepository: the mutators\<close>

definition repo_create ::
  "world \<Rightarrow> uuid \<Rightarrow> uuid \<Rightarrow> PlatformType \<Rightarrow> datetime \<Rightarrow> ScheduleMode \<Rightarrow> string
     \<Rightarrow> string option \<Rightarrow> config option \<Rightarrow> ScheduledPost \<times> world" where
  "repo_create w cid aid plat sched_for mode tz batch cfg =
     (let post = \<lparr>post_id = next_id w,
                   content_library_item_id = cid,
                   connected_account_id = aid,
                   platform = plat,
                   scheduled_for = sched_for,
                   timezone = tz,
                   status = DRAFT,
                   late_status = None,
                   schedule_mode = mode,
                   batch_id = batch,
                   late_post_id = None,
                   platform_post_id = None,
                   platform_post_url = None,
                   published_at = None,
                   failed_at = None,
                   error_message = None,
                   retry_count = 0,
                   platform_specific_config = cfg,
                   created_at = now w\<rparr>
      in (post, w\<lparr>posts := posts w @ [post], next_id := Suc (next_id w)\<rparr>))"

text \<open>The assignments of \<open>update_status\<close> to the ORM object, in the source's order.\<close>

definition update_status_row ::
  "datetime \<Rightarrow> ScheduledPost \<Rightarrow> ScheduleStatus \<Rightarrow> string option \<Rightarrow> LatePostStatus option
     \<Rightarrow> string option \<Rightarrow> string option \<Rightarrow> string option \<Rightarrow> ScheduledPost" where
  "update_status_row t post st lpid lst ppid purl err =
     (let p1 = post\<lparr>status := st\<rparr>;
          p2 = (case lpid of None \<Rightarrow> p1 | Some v \<Rightarrow> p1\<lparr>late_post_id := Some v\<rparr>);
          p3 = (case lst of None \<Rightarrow> p2 | Some v \<Rightarrow> p2\<lparr>late_status := Some v\<rparr>);
          p4 = (case ppid of None \<Rightarrow> p3 | Some v \<Rightarrow> p3\<lparr>platform_post_id := Some v\<rparr>);
          p5 = (case purl of None \<Rightarrow> p4 | Some v \<Rightarrow> p4\<lparr>platform_post_url := Some v\<rparr>);
          p6 = (if st = PUBLISHED then p5\<lparr>published_at := Some t\<rparr> else p5)
      in if st = FAILED
         then (let p7 = p6\<lparr>failed_at := Some t, retry_count := retry_count p6 + 1\<rparr>
               in if truthy err then p7\<lparr>error_message := err\<rparr> else p7)
         else p6)"

definition update_status ::
  "world \<Rightarrow> ScheduledPost \<Rightarrow> ScheduleStatus \<Rightarrow> string option \<Rightarrow> LatePostStatus option
     \<Rightarrow> string option \<Rightarrow> string option \<Rightarrow> string option \<Rightarrow> ScheduledPost \<times> world" where
  "update_status w post st lpid lst ppid purl err =
     (let post' = update_status_row (now w) post st lpid lst ppid purl err
      in (post', flush post' w))"

text \<open>\<open>ScheduledPostRepository.reschedule\<close>.\<close>

definition reschedule_row ::
  "ScheduledPost \<Rightarrow> datetime \<Rightarrow> string option \<Rightarrow> ScheduledPost" where
  "reschedule_row post new_time tz =
     (let p1 = post\<lparr>scheduled_for := new_time\<rparr>;
          p2 = (case tz of
                  None \<Rightarrow> p1
                | Some z \<Rightarrow> if z = [] then p1 else p1\<lparr>timezone := z\<rparr>)
      in if status p2 = SCHEDULED then p2\<lparr>status := PENDING_SYNC\<rparr> else p2)"

definition repo_reschedule ::
  "world \<Rightarrow> ScheduledPost \<Rightarrow> datetime \<Rightarrow> string option \<Rightarrow> ScheduledPost \<times> world" where
  "repo_reschedule w post new_time tz =
     (let post' = reschedule_row post new_time tz in (post', flush post' w))"

text \<open>\<open>ScheduledPostRepository.cancel\<close>.\<close>

definition repo_cancel :: "world \<Rightarrow> ScheduledPost \<Rightarrow> ScheduledPost \<times> world" where
  "repo_cancel w post = (let post' = post\<lparr>status := CANCELLED\<rparr> in (post', flush post' w))"

section \<open>SchedulerService\<close>

text \<open>
  Every operation returns the value or the exception together with the world it leaves
  behind: what was flushed or committed before a \<open>raise\<close> stays so.
\<close>

subsection \<open>Requests built for the Late API\<close>

definition platform_target :: "ScheduledPost \<Rightarrow> ConnectedAccount \<Rightarrow> LatePlatformTarget" where
  "platform_target post account =
     \<lparr>target_platform = platform post,
      target_account_id = late_account_id account,
      target_post_id = None,
      target_post_url = None\<rparr>"

text \<open>
  \<open>LateMediaItem(url=..., type=..., alt_text=...)\<close>: the field \<open>alt_text\<close> has the alias
  \<open>altText\<close> and the model does not populate by name, so the keyword \<open>alt_text\<close> is
  not taken and the item carries no alt text.
\<close>

definition media_item :: "MediaAttachment \<Rightarrow> LateMediaItem" where
  "media_item attachment =
     \<lparr>item_url = late_media_url attachment,
      item_type = media_type attachment,
      item_alt_text = None\<rparr>"

text \<open>The \<open>LatePostCreate\<close> of \<open>_sync_to_late\<close>.\<close>

definition sync_request ::
  "ScheduledPost \<Rightarrow> ContentLibraryItem \<Rightarrow> ConnectedAccount \<Rightarrow> LatePostCreate" where
  "sync_request post content account =
     \<lparr>create_content = body content,
      create_title = title content,
      create_media_items = map media_item (media_attachments content),
      create_platforms = [platform_target post account],
      create_scheduled_for = Some (scheduled_for post),
      create_publish_now = False,
      create_timezone = Some (timezone post),
      create_hashtags = hashtags content,
      create_mentions = mentions content\<rparr>"

text \<open>The \<open>LatePostCreate\<close> of \<open>_publish_via_late\<close>: attachments without a Late media
  URL are left out, and the post is to be published at once.\<close>

definition publish_request ::
  "ScheduledPost \<Rightarrow> ContentLibraryItem \<Rightarrow> ConnectedAccount \<Rightarrow> LatePostCreate" where
  "publish_request post content account =
     \<lparr>create_content = body content,
      create_title = title content,
      create_media_items =
        map media_item (filter (\<lambda>a. truthy (late_media_url a)) (media_attachments content)),
      create_platforms = [platform_target post account],
      create_scheduled_for = None,
      create_publish_now = True,
      create_timezone = None,
      create_hashtags = hashtags content,
      create_mentions = mentions content\<rparr>"

subsection \<open>The Late client\<close>

text \<open>
  \<open>LateApiClient()\<close>: the constructor raises \<open>LateAuthenticationError\<close>, a
  \<open>LateApiError\<close>, when no API key is configured.
\<close>

definition LateApiClient_init :: "world \<Rightarrow> error + unit" where
  "LateApiClient_init w =
     (if truthy (late_api_key w) then Inr ()
      else Inl (LateApiError ''Late API key not configured''))"

text \<open>
  \<open>LateApiClient.create_post\<close> and \<open>update_post\<close> dump the request model in Python mode,
  which keeps \<open>scheduled_for\<close> as a \<open>datetime\<close>, and hand the dictionary to the HTTP
  library as \<open>json=\<close>. Encoding it raises \<open>TypeError\<close> while the request is built:
  nothing is sent, and \<open>_request\<close> catches connection errors only. A request without
  \<open>scheduled_for\<close> is sent, and the answer is Late's. \<open>delete_post\<close> has no body.
\<close>

definition LateApiClient_create_post ::
  "LateApiClient \<Rightarrow> world \<Rightarrow> LatePostCreate \<Rightarrow> (error + LatePost) \<times> world" where
  "LateApiClient_create_post client w post_data =
     (if create_scheduled_for post_data \<noteq> None then (Inl TypeError, w)
      else
        (case create_post client (late_calls w) post_data of
           Inl msg \<Rightarrow> (Inl (LateApiError msg), issue (CreatePost post_data) w)
         | Inr late_post \<Rightarrow> (Inr late_post, issue (CreatePost post_data) w)))"

definition LateApiClient_update_post ::
  "LateApiClient \<Rightarrow> world \<Rightarrow> string \<Rightarrow> LatePostUpdate \<Rightarrow> (error + LatePost) \<times> world" where
  "LateApiClient_update_post client w lpid update_data =
     (if update_scheduled_for update_data \<noteq> None then (Inl TypeError, w)
      else
        (case update_post client (late_calls w) lpid update_data of
           Inl msg \<Rightarrow> (Inl (LateApiError msg), issue (UpdatePost lpid update_data) w)
         | Inr late_post \<Rightarrow> (Inr late_post, issue (UpdatePost lpid update_data) w)))"

definition LateApiClient_delete_post ::
  "LateApiClient \<Rightarrow> world \<Rightarrow> string \<Rightarrow> (error + bool) \<times> world" where
  "LateApiClient_delete_post client w lpid =
     (case delete_post client (late_calls w) lpid of
        Inl msg \<Rightarrow> (Inl (LateApiError msg), issue (DeletePost lpid) w)
      | Inr ok \<Rightarrow> (Inr True, issue (DeletePost lpid) w))"

subsection \<open>Synchronisation with the Late API\<close>

text \<open>
  \<open>_sync_to_late\<close>. The client is constructed before the \<open>try\<close>, so its error is not
  handled here. Inside the \<open>try\<close> only \<open>LateApiError\<close> is caught: the post is marked
  \<open>FAILED\<close>, the session committed and the error raised again. A \<open>ValueError\<close> (content
  or account not found, or a status string outside \<open>LatePostStatus\<close>) and the
  \<open>TypeError\<close> of the client leave the \<open>try\<close> uncaught.
\<close>

definition sync_to_late ::
  "LateApiClient \<Rightarrow> world \<Rightarrow> ScheduledPost \<Rightarrow> (error + ScheduledPost) \<times> world" where
  "sync_to_late client w post =
     (case LateApiClient_init w of
        Inl e \<Rightarrow> (Inl e, w)
      | Inr u \<Rightarrow>
          (case (get_by_id_with_media w (content_library_item_id post),
                 get_account w (connected_account_id post)) of
             (Some content, Some account) \<Rightarrow>
               (case LateApiClient_create_post client w (sync_request post content account) of
                  (Inl (LateApiError msg), w1) \<Rightarrow>
                    (let (post', w2) =
                           update_status w1 post FAILED None None None None (Some msg)
                     in (Inl (LateApiError msg), commit w2))
                | (Inl e, w1) \<Rightarrow> (Inl e, w1)
                | (Inr late_post, w1) \<Rightarrow>
                    (case LatePostStatus_of (late_post_status late_post) of
                       Inl e \<Rightarrow> (Inl e, w1)
                     | Inr ls \<Rightarrow>
                         (let (post', w2) =
                                update_status w1 post SCHEDULED (Some (late_id late_post))
                                  (Some ls) None None None
                          in (Inr post', commit w2))))
           | _ \<Rightarrow> (Inl (ValueError ContentOrAccountNotFound), w)))"

text \<open>\<open>_update_late_schedule\<close>: no \<open>except\<close> clause, every error propagates.\<close>

definition update_late_schedule ::
  "LateApiClient \<Rightarrow> world \<Rightarrow> ScheduledPost \<Rightarrow> (error + ScheduledPost) \<times> world" where
  "update_late_schedule client w post =
     (case late_post_id post of
        None \<Rightarrow> (Inr post, w)
      | Some lpid \<Rightarrow>
          if lpid = [] then (Inr post, w)
          else
            (case LateApiClient_init w of
               Inl e \<Rightarrow> (Inl e, w)
             | Inr u \<Rightarrow>
                 (case LateApiClient_update_post client w lpid
                         \<lparr>update_scheduled_for = Some (scheduled_for post),
                          update_timezone = Some (timezone post)\<rparr> of
                    (Inl e, w1) \<Rightarrow> (Inl e, w1)
                  | (Inr late_post, w1) \<Rightarrow>
                      (let (post', w2) =
                             update_status w1 post SCHEDULED None None None None None
                       in (Inr post', commit w2)))))"

text \<open>\<open>_delete_from_late\<close>: no \<open>except\<close> clause either.\<close>

definition delete_from_late ::
  "LateApiClient \<Rightarrow> world \<Rightarrow> ScheduledPost \<Rightarrow> (error + unit) \<times> world" where
  "delete_from_late client w post =
     (case late_post_id post of
        None \<Rightarrow> (Inr (), w)
      | Some lpid \<Rightarrow>
          if lpid = [] then (Inr (), w)
          else
            (case LateApiClient_init w of
               Inl e \<Rightarrow> (Inl e, w)
             | Inr u \<Rightarrow>
                 (case LateApiClient_delete_post client w lpid of
                    (Inl e, w1) \<Rightarrow> (Inl e, w1)
                  | (Inr ok, w1) \<Rightarrow> (Inr (), w1))))"

text \<open>\<open>_publish_via_late\<close>: the request has no \<open>scheduled_for\<close>; \<open>platform_data\<close> is the
  first platform of the answer. Nothing is caught here.\<close>

definition publish_via_late ::
  "LateApiClient \<Rightarrow> world \<Rightarrow> ScheduledPost \<Rightarrow> (error + ScheduledPost) \<times> world" where
  "publish_via_late client w post =
     (case LateApiClient_init w of
        Inl e \<Rightarrow> (Inl e, w)
      | Inr u \<Rightarrow>
          (case (get_by_id_with_media w (content_library_item_id post),
                 get_account w (connected_account_id post)) of
             (Some content, Some account) \<Rightarrow>
               (case LateApiClient_create_post client w
                       (publish_request post content account) of
                  (Inl e, w1) \<Rightarrow> (Inl e, w1)
                | (Inr late_post, w1) \<Rightarrow>
                    (case LatePostStatus_of (late_post_status late_post) of
                       Inl e \<Rightarrow> (Inl e, w1)
                     | Inr ls \<Rightarrow>
                         (let platform_data =
                                (case late_platforms late_post of
                                   [] \<Rightarrow> None
                                 | d # ds \<Rightarrow> Some d);
                              (post', w2) =
                                update_status w1 post PUBLISHED (Some (late_id late_post))
                                  (Some ls)
                                  (case platform_data of
                                     None \<Rightarrow> None
                                   | Some d \<Rightarrow> target_post_id d)
                                  (case platform_data of
                                     None \<Rightarrow> None
                                   | Some d \<Rightarrow> target_post_url d)
                                  None
                          in (Inr post', commit w2))))
           | _ \<Rightarrow> (Inl (ValueError ContentOrAccountNotFound), w)))"

subsection \<open>Rescheduling, cancelling, publishing now\<close>

text \<open>\<open>SchedulerService.reschedule\<close>.\<close>

definition reschedule ::
  "LateApiClient \<Rightarrow> world \<Rightarrow> uuid \<Rightarrow> datetime \<Rightarrow> string option
     \<Rightarrow> (error + ScheduledPost) \<times> world" where
  "reschedule client w pid new_time tz =
     (case get_by_id_with_relations w pid of
        None \<Rightarrow> (Inl (ValueError (PostNotFound pid)), w)
      | Some post \<Rightarrow>
          if status post = PUBLISHED \<or> status post = CANCELLED
          then (Inl (ValueError (CannotReschedule (status post))), w)
          else
            (let (post1, w1) = repo_reschedule w post new_time tz;
                 w2 = commit w1
             in if truthy (late_post_id post1)
                then update_late_schedule client w2 post1
                else (Inr post1, w2)))"

text \<open>\<open>SchedulerService.cancel\<close>.\<close>

definition cancel ::
  "LateApiClient \<Rightarrow> world \<Rightarrow> uuid \<Rightarrow> (error + ScheduledPost) \<times> world" where
  "cancel client w pid =
     (case get_by_id_with_relations w pid of
        None \<Rightarrow> (Inl (ValueError (PostNotFound pid)), w)
      | Some post \<Rightarrow>
          if status post = PUBLISHED
          then (Inl (ValueError CannotCancelPublished), w)
          else
            (case (if truthy (late_post_id post)
                   then delete_from_late client w post
                   else (Inr (), w)) of
               (Inl e, w1) \<Rightarrow> (Inl e, w1)
             | (Inr u, w1) \<Rightarrow>
                 (let (post', w2) = repo_cancel w1 post in (Inr post', commit w2))))"

text \<open>\<open>SchedulerService.publish_now\<close>: only a \<open>PUBLISHED\<close> post is refused.\<close>

definition publish_now ::
  "LateApiClient \<Rightarrow> world \<Rightarrow> uuid \<Rightarrow> (error + ScheduledPost) \<times> world" where
  "publish_now client w pid =
     (case get_by_id_with_relations w pid of
        None \<Rightarrow> (Inl (ValueError (PostNotFound pid)), w)
      | Some post \<Rightarrow>
          if status post = PUBLISHED
          then (Inl (ValueError AlreadyPublished), w)
          else
            (let (post1, w1) = update_status w post PUBLISHING None None None None None;
                 w2 = commit w1
             in case publish_via_late client w2 post1 of
                  (Inl (LateApiError msg), w3) \<Rightarrow>
                    (let (post2, w4) =
                           update_status w3 post1 FAILED None None None None (Some msg)
                     in (Inl (LateApiError msg), commit w4))
                | (Inl e, w3) \<Rightarrow> (Inl e, w3)
                | (Inr post2, w3) \<Rightarrow> (Inr post2, w3)))"

subsection \<open>The sweep\<close>

text \<open>
  The loop of \<open>sync_pending\<close> over the selected posts, with its two counters. The
  \<open>except LateApiError\<close> counts a failure and goes on; any other exception leaves the loop.
\<close>

fun sync_loop ::
  "LateApiClient \<Rightarrow> world \<Rightarrow> ScheduledPost list \<Rightarrow> nat \<Rightarrow> nat \<Rightarrow> (error + nat \<times> nat) \<times> world"
  where
  "sync_loop client w [] synced failed = (Inr (synced, failed), w)"
| "sync_loop client w (post # rest) synced failed =
     (case sync_to_late client w post of
        (Inr post', w') \<Rightarrow> sync_loop client w' rest (synced + 1) failed
      | (Inl (LateApiError msg), w') \<Rightarrow> sync_loop client w' rest synced (failed + 1)
      | (Inl e, w') \<Rightarrow> (Inl e, w'))"

definition sync_pending :: "LateApiClient \<Rightarrow> world \<Rightarrow> (error + nat \<times> nat) \<times> world" where
  "sync_pending client w = sync_loop client w (get_pending_sync w) 0 0"

subsection \<open>Scheduling\<close>

text \<open>The status given to a new post.\<close>

definition initial_status :: "bool \<Rightarrow> ScheduleStatus" where
  "initial_status sync_immediately = (if sync_immediately then PENDING_SYNC else DRAFT)"

text \<open>\<open>SchedulerService.schedule_single\<close>.\<close>

definition schedule_single ::
  "LateApiClient \<Rightarrow> world \<Rightarrow> uuid \<Rightarrow> uuid \<Rightarrow> datetime \<Rightarrow> string \<Rightarrow> config option \<Rightarrow> bool
     \<Rightarrow> (error + ScheduledPost) \<times> world" where
  "schedule_single client w cid aid sched_for tz cfg sync_immediately =
     (case get_account w aid of
        None \<Rightarrow> (Inl (ValueError (AccountNotFound aid)), w)
      | Some account \<Rightarrow>
          if \<not> is_active account then (Inl (ValueError (AccountNotActive aid)), w)
          else
            (case get_by_id_with_media w cid of
               None \<Rightarrow> (Inl (ValueError (ContentNotFound cid)), w)
             | Some content \<Rightarrow>
                 (let (post0, w1) =
                        repo_create w cid aid (account_platform account) sched_for
                          SINGLE_PLATFORM tz None cfg;
                      (post1, w2) =
                        update_status w1 post0 (initial_status sync_immediately)
                          None None None None None;
                      w3 = commit w2
                  in if sync_immediately then sync_to_late client w3 post1
                     else (Inr post1, w3))))"

record AccountSchedule =
  schedule_account_id :: uuid
  schedule_for :: datetime
  schedule_config :: "config option"

text \<open>The first loop of \<open>schedule_multi\<close>: one post per entry, in the order supplied; an
  account that is missing or inactive raises out of the loop.\<close>

fun create_posts ::
  "world \<Rightarrow> uuid \<Rightarrow> string \<Rightarrow> string \<Rightarrow> bool \<Rightarrow> AccountSchedule list \<Rightarrow> ScheduledPost list
     \<Rightarrow> (error + ScheduledPost list) \<times> world" where
  "create_posts w cid tz batch sync_immediately [] created = (Inr created, w)"
| "create_posts w cid tz batch sync_immediately (schedule # rest) created =
     (case get_account w (schedule_account_id schedule) of
        None \<Rightarrow> (Inl (ValueError (AccountNotFound (schedule_account_id schedule))), w)
      | Some account \<Rightarrow>
          if \<not> is_active account
          then (Inl (ValueError (AccountPlatformNotActive (account_platform account))), w)
          else
            (let (post0, w1) =
                   repo_create w cid (schedule_account_id schedule) (account_platform account)
                     (schedule_for schedule) MULTI_PLATFORM tz (Some batch)
                     (schedule_config schedule);
                 (post1, w2) =
                   update_status w1 post0 (initial_status sync_immediately)
                     None None None None None
             in create_posts w2 cid tz batch sync_immediately rest (created @ [post1])))"

text \<open>The second loop: \<open>for post in posts: await _sync_to_late(session, post)\<close>.\<close>

fun sync_posts ::
  "LateApiClient \<Rightarrow> world \<Rightarrow> ScheduledPost list \<Rightarrow> (error + ScheduledPost list) \<times> world" where
  "sync_posts client w [] = (Inr [], w)"
| "sync_posts client w (post # rest) =
     (case sync_to_late client w post of
        (Inl e, w1) \<Rightarrow> (Inl e, w1)
      | (Inr post', w1) \<Rightarrow>
          (case sync_posts client w1 rest of
             (Inl e, w2) \<Rightarrow> (Inl e, w2)
           | (Inr rest', w2) \<Rightarrow> (Inr (post' # rest'), w2)))"

text \<open>\<open>SchedulerService.schedule_multi\<close>; \<open>batch\<close> is the token drawn by \<open>str(uuid4())\<close>.
  The single \<open>session.commit()\<close> comes after the first loop.\<close>

definition schedule_multi ::
  "LateApiClient \<Rightarrow> world \<Rightarrow> uuid \<Rightarrow> AccountSchedule list \<Rightarrow> string \<Rightarrow> bool \<Rightarrow> string
     \<Rightarrow> (error + string \<times> ScheduledPost list) \<times> world" where
  "schedule_multi client w cid account_schedules tz sync_immediately batch =
     (case get_by_id_with_media w cid of
        None \<Rightarrow> (Inl (ValueError (ContentNotFound cid)), w)
      | Some content \<Rightarrow>
          (case create_posts w cid tz batch sync_immediately account_schedules [] of
             (Inl e, w1) \<Rightarrow> (Inl e, w1)
           | (Inr created, w1) \<Rightarrow>
               (let w2 = commit w1
                in if sync_immediately
                   then (case sync_posts client w2 created of
                           (Inl e, w3) \<Rightarrow> (Inl e, w3)
                         | (Inr synced, w3) \<Rightarrow> (Inr (batch, synced), w3))
                   else (Inr (batch, created), w2))))"

section \<open>Notions used to state the properties\<close>

text \<open>A post can be pushed when its content (not soft-deleted) and its account are
  found.\<close>

definition pushable :: "world \<Rightarrow> ScheduledPost \<Rightarrow> bool" where
  "pushable w post =
     (get_by_id_with_media w (content_library_item_id post) \<noteq> None
      \<and> get_account w (connected_account_id post) \<noteq> None)"

text \<open>An entry of \<open>account_schedules\<close> passes the validation of \<open>schedule_multi\<close> when its
  account exists and is active.\<close>

definition schedulable :: "world \<Rightarrow> AccountSchedule \<Rightarrow> bool" where
  "schedulable w schedule =
     (case get_account w (schedule_account_id schedule) of
        None \<Rightarrow> False
      | Some account \<Rightarrow> is_active account)"

text \<open>Primary keys already in the table lie below the next one to be given.\<close>

definition fresh_ids :: "world \<Rightarrow> bool" where
  "fresh_ids w = list_all (\<lambda>p. post_id p < next_id w) (posts w)"

section \<open>Concrete worlds\<close>

text \<open>One active account, one content item, posts of that content on that account, and
  an API key for Late.\<close>

definition example_account :: ConnectedAccount where
  "example_account =
     \<lparr>account_id = 20, account_platform = TIKTOK, late_account_id = ''acc-20'',
      is_active = True\<rparr>"

definition example_content :: ContentLibraryItem where
  "example_content =
     \<lparr>content_id = 10, title = Some ''Title'', body = Some ''Body'', hashtags = [],
      mentions = [], media_attachments = [], is_deleted = False\<rparr>"

definition example_post :: "uuid \<Rightarrow> ScheduleStatus \<Rightarrow> string option \<Rightarrow> ScheduledPost" where
  "example_post pid st lpid =
     \<lparr>post_id = pid, content_library_item_id = 10, connected_account_id = 20,
      platform = TIKTOK, scheduled_for = 1000, timezone = ''UTC'', status = st,
      late_status = None, schedule_mode = SINGLE_PLATFORM, batch_id = None,
      late_post_id = lpid, platform_post_id = None, platform_post_url = None,
      published_at = None, failed_at = None, error_message = None, retry_count = 0,
      platform_specific_config = None, created_at = 5\<rparr>"

definition example_world :: "ScheduledPost list \<Rightarrow> world" where
  "example_world rows =
     \<lparr>posts = rows, committed = rows, accounts = [example_account],
      contents = [example_content], next_id = 100, now = 50, late_calls = [],
      late_api_key = Some ''late-key''\<rparr>"

text \<open>A Late API that accepts every request, and one that fails every request.\<close>

definition late_accepts :: LateApiClient where
  "late_accepts =
     \<lparr>create_post = (\<lambda>calls req. Inr \<lparr>late_id = ''ext-999'', late_post_status = ''pending'',
                                        late_platforms = []\<rparr>),
      update_post = (\<lambda>calls lpid req. Inr \<lparr>late_id = lpid, late_post_status = ''pending'',
                                             late_platforms = []\<rparr>),
      delete_post = (\<lambda>calls lpid. Inr True)\<rparr>"

definition late_rejects :: "string \<Rightarrow> LateApiClient" where
  "late_rejects msg =
     \<lparr>create_post = (\<lambda>calls req. Inl msg),
      update_post = (\<lambda>calls lpid req. Inl msg),
      delete_post = (\<lambda>calls lpid. Inl msg)\<rparr>"

text \<open>A second account, inactive, and a second content item, soft-deleted.\<close>

definition inactive_account :: ConnectedAccount where
  "inactive_account =
     \<lparr>account_id = 21, account_platform = YOUTUBE, late_account_id = ''acc-21'',
      is_active = False\<rparr>"

definition deleted_content :: ContentLibraryItem where
  "deleted_content =
     \<lparr>content_id = 11, title = None, body = Some ''Old'', hashtags = [],
      mentions = [], media_attachments = [], is_deleted = True\<rparr>"

definition wider_world :: "ScheduledPost list \<Rightarrow> world" where
  "wider_world rows =
     \<lparr>posts = rows, committed = rows, accounts = [example_account, inactive_account],
      contents = [example_content, deleted_content], next_id = 100, now = 50,
      late_calls = [], late_api_key = Some ''late-key''\<rparr>"

text \<open>A third account, active, and a world with the two active accounts.\<close>

definition third_account :: ConnectedAccount where
  "third_account =
     \<lparr>account_id = 22, account_platform = LINKEDIN, late_account_id = ''acc-22'',
      is_active = True\<rparr>"

definition two_account_world :: "ScheduledPost list \<Rightarrow> world" where
  "two_account_world rows =
     \<lparr>posts = rows, committed = rows, accounts = [example_account, third_account],
      contents = [example_content], next_id = 100, now = 50, late_calls = [],
      late_api_key = Some ''late-key''\<rparr>"

definition schedule_on :: "uuid \<Rightarrow> AccountSchedule" where
  "schedule_on aid =
     \<lparr>schedule_account_id = aid, schedule_for = 1000, schedule_config = None\<rparr>"

section \<open>Auxiliary facts\<close>

lemmas examples = example_account_def example_content_def example_post_def example_world_def
  late_accepts_def late_rejects_def inactive_account_def third_account_def
  deleted_content_def wider_world_def two_account_world_def schedule_on_def

lemmas operations = flush_def commit_def issue_def get_by_id_with_relations_def get_account_def
  get_by_id_with_media_def update_status_def update_status_row_def repo_reschedule_def
  reschedule_row_def repo_cancel_def repo_create_def sync_to_late_def update_late_schedule_def
  delete_from_late_def publish_via_late_def LatePostStatus_of_def sync_request_def
  publish_request_def platform_target_def media_item_def initial_status_def
  LateApiClient_init_def LateApiClient_create_post_def LateApiClient_update_post_def
  LateApiClient_delete_post_def Let_def

lemma find_post_id:
  "find (\<lambda>p. post_id p = pid) rows = Some post \<Longrightarrow> post_id post = pid"
  by (induction rows) (auto split: if_splits)

lemma find_flush:
  assumes "find (\<lambda>p. post_id p = pid) rows = Some post" and "post_id post' = pid"
  shows "find (\<lambda>p. post_id p = pid)
           (map (\<lambda>q. if post_id q = post_id post' then post' else q) rows) = Some post'"
  using assms by (induction rows) (auto split: if_splits)

lemma get_flush:
  assumes "get_by_id_with_relations w pid = Some post" and "post_id post' = pid"
  shows "get_by_id_with_relations (flush post' w) pid = Some post'"
  using find_flush [OF assms [unfolded get_by_id_with_relations_def]]
  by (simp add: get_by_id_with_relations_def flush_def)

lemma flush_fields:
  "late_calls (flush p w) = late_calls w" "committed (flush p w) = committed w"
  "accounts (flush p w) = accounts w" "contents (flush p w) = contents w"
  "now (flush p w) = now w" "next_id (flush p w) = next_id w"
  "late_api_key (flush p w) = late_api_key w"
  by (simp_all add: flush_def)

lemma commit_fields:
  "late_calls (commit w) = late_calls w" "committed (commit w) = posts w"
  "posts (commit w) = posts w"
  "accounts (commit w) = accounts w" "contents (commit w) = contents w"
  "now (commit w) = now w" "next_id (commit w) = next_id w"
  "late_api_key (commit w) = late_api_key w"
  by (simp_all add: commit_def)

lemma issue_fields:
  "late_calls (issue c w) = late_calls w @ [c]" "committed (issue c w) = committed w"
  "posts (issue c w) = posts w"
  "accounts (issue c w) = accounts w" "contents (issue c w) = contents w"
  "now (issue c w) = now w" "next_id (issue c w) = next_id w"
  "late_api_key (issue c w) = late_api_key w"
  by (simp_all add: issue_def)

lemma get_commit: "get_by_id_with_relations (commit w) pid = get_by_id_with_relations w pid"
  by (simp add: get_by_id_with_relations_def commit_fields)

lemma get_issue: "get_by_id_with_relations (issue c w) pid = get_by_id_with_relations w pid"
  by (simp add: get_by_id_with_relations_def issue_fields)

lemma update_status_plain:
  "st \<noteq> PUBLISHED \<Longrightarrow> st \<noteq> FAILED \<Longrightarrow>
     update_status w post st None None None None None
       = (post\<lparr>status := st\<rparr>, flush (post\<lparr>status := st\<rparr>) w)"
  by (simp add: update_status_def update_status_row_def Let_def)

lemma reschedule_live:
  assumes "get_by_id_with_relations w pid = Some post"
      and "status post \<noteq> PUBLISHED" and "status post \<noteq> CANCELLED"
  shows "reschedule client w pid new_time tz =
           (if truthy (late_post_id post)
            then update_late_schedule client
                   (commit (flush (reschedule_row post new_time tz) w))
                   (reschedule_row post new_time tz)
            else (Inr (reschedule_row post new_time tz),
                  commit (flush (reschedule_row post new_time tz) w)))"
  using assms
  by (simp add: reschedule_def repo_reschedule_def reschedule_row_def Let_def
      split: option.splits)




lemma get_post_id:
  "get_by_id_with_relations w pid = Some post \<Longrightarrow> post_id post = pid"
  unfolding get_by_id_with_relations_def by (rule find_post_id)

text \<open>A push as the code runs it: the create request carries \<open>scheduled_for\<close>, so the
  client raises before anything is sent, and the world is left as it was.\<close>

lemma sync_to_late_raises:
  "sync_to_late client w post =
     (Inl (if \<not> truthy (late_api_key w) then LateApiError ''Late API key not configured''
           else if pushable w post then TypeError
           else ValueError ContentOrAccountNotFound), w)"
  by (simp add: sync_to_late_def LateApiClient_init_def LateApiClient_create_post_def
        sync_request_def pushable_def split: option.splits)

lemma update_late_schedule_raises:
  assumes "late_post_id post = Some lpid" and "lpid \<noteq> []"
  shows "update_late_schedule client w post =
           (Inl (if truthy (late_api_key w) then TypeError
                 else LateApiError ''Late API key not configured''), w)"
  using assms
  by (simp add: update_late_schedule_def LateApiClient_init_def LateApiClient_update_post_def)

lemma sync_loop_unconfigured:
  "\<not> truthy (late_api_key w) \<Longrightarrow>
     sync_loop client w selected synced failed = (Inr (synced, failed + length selected), w)"
  by (induction selected arbitrary: synced failed) (simp_all add: sync_to_late_raises)


lemma sync_loop_world: "snd (sync_loop client w selected synced failed) = w"
proof (cases "truthy (late_api_key w)")
  case True
  then show ?thesis
    by (cases selected) (simp_all add: sync_to_late_raises)
next
  case False
  then show ?thesis by (simp add: sync_loop_unconfigured)
qed


lemma sync_posts_world: "snd (sync_posts client w created) = w"
  by (cases created) (simp_all add: sync_to_late_raises)

lemma flush_fresh:
  "list_all (\<lambda>p. post_id p < n) rows \<Longrightarrow> post_id post = n \<Longrightarrow>
     map (\<lambda>q. if post_id q = post_id post then post else q) rows = rows"
  by (induction rows) auto

lemma fresh_weaken:
  "list_all (\<lambda>p. post_id p < n) rows \<Longrightarrow> list_all (\<lambda>p. post_id p < Suc n) rows"
  by (induction rows) auto

lemma create_round:
  assumes "get_account w (schedule_account_id schedule) = Some account"
      and "is_active account"
  shows "\<exists>post w'.
           create_posts w cid tz batch sync (schedule # rest) created
             = create_posts w' cid tz batch sync rest (created @ [post])
           \<and> accounts w' = accounts w \<and> contents w' = contents w
           \<and> committed w' = committed w \<and> late_calls w' = late_calls w
           \<and> late_api_key w' = late_api_key w
           \<and> (fresh_ids w \<longrightarrow> posts w' = posts w @ [post] \<and> fresh_ids w')
           \<and> connected_account_id post = schedule_account_id schedule
           \<and> batch_id post = Some batch
           \<and> schedule_mode post = MULTI_PLATFORM
           \<and> content_library_item_id post = cid
           \<and> status post = initial_status sync
           \<and> late_post_id post = None"
proof -
  define draft where
    "draft = fst (repo_create w cid (schedule_account_id schedule) (account_platform account)
                    (schedule_for schedule) MULTI_PLATFORM tz (Some batch)
                    (schedule_config schedule))"
  define w1 where
    "w1 = snd (repo_create w cid (schedule_account_id schedule) (account_platform account)
                    (schedule_for schedule) MULTI_PLATFORM tz (Some batch)
                    (schedule_config schedule))"
  define post where "post = draft\<lparr>status := initial_status sync\<rparr>"
  define w2 where "w2 = flush post w1"
  have plain: "update_status w1 draft (initial_status sync) None None None None None
                 = (post, w2)"
    by (simp add: update_status_plain initial_status_def post_def w2_def)
  have made: "repo_create w cid (schedule_account_id schedule) (account_platform account)
                    (schedule_for schedule) MULTI_PLATFORM tz (Some batch)
                    (schedule_config schedule) = (draft, w1)"
    by (simp add: draft_def w1_def)
  have step: "create_posts w cid tz batch sync (schedule # rest) created
                = create_posts w2 cid tz batch sync rest (created @ [post])"
    using assms by (simp add: made plain)
  have draft_fields: "post_id draft = next_id w"
      "connected_account_id draft = schedule_account_id schedule"
      "batch_id draft = Some batch" "schedule_mode draft = MULTI_PLATFORM"
      "content_library_item_id draft = cid" "late_post_id draft = None"
    by (simp_all add: draft_def repo_create_def Let_def)
  have w1_fields: "posts w1 = posts w @ [draft]" "next_id w1 = Suc (next_id w)"
      "accounts w1 = accounts w" "contents w1 = contents w" "committed w1 = committed w"
      "late_calls w1 = late_calls w" "late_api_key w1 = late_api_key w"
    by (simp_all add: w1_def draft_def repo_create_def Let_def)
  have tables: "accounts w2 = accounts w" "contents w2 = contents w"
      "committed w2 = committed w" "late_calls w2 = late_calls w"
      "next_id w2 = Suc (next_id w)" "late_api_key w2 = late_api_key w"
    by (simp_all add: w2_def flush_fields w1_fields)
  have post_fields: "post_id post = next_id w"
      "connected_account_id post = schedule_account_id schedule"
      "batch_id post = Some batch" "schedule_mode post = MULTI_PLATFORM"
      "content_library_item_id post = cid" "late_post_id post = None"
      "status post = initial_status sync"
    by (simp_all add: post_def draft_fields)
  have rows: "posts w2 = posts w @ [post] \<and> fresh_ids w2" if fresh: "fresh_ids w"
  proof -
    have old: "list_all (\<lambda>p. post_id p < next_id w) (posts w)"
      using fresh by (simp add: fresh_ids_def)
    have "map (\<lambda>q. if post_id q = post_id post then post else q) (posts w) = posts w"
      using flush_fresh [OF old post_fields(1)] .
    then have eq: "posts w2 = posts w @ [post]"
      by (simp add: w2_def flush_def w1_fields post_fields draft_fields)
    have "fresh_ids w2"
      using fresh_weaken [OF old]
      by (simp add: fresh_ids_def eq tables post_fields)
    with eq show ?thesis by simp
  qed
  show ?thesis
    using step tables rows post_fields by blast
qed

lemma create_posts_refused:
  assumes "\<not> schedulable w schedule"
  shows "\<exists>e. create_posts w cid tz batch sync (schedule # rest) created = (Inl (ValueError e), w)"
  using assms by (auto simp: schedulable_def split: option.splits)

lemma schedulable_cong:
  "accounts w' = accounts w \<Longrightarrow> schedulable w' = schedulable w"
  by (rule ext) (simp add: schedulable_def get_account_def)

lemma create_posts_partial:
  assumes "fresh_ids w" and "list_all (schedulable w) good" and "\<not> schedulable w bad"
  shows "\<exists>e w' new.
           create_posts w cid tz batch sync (good @ bad # rest) created
             = (Inl (ValueError e), w')
           \<and> committed w' = committed w \<and> late_calls w' = late_calls w
           \<and> posts w' = posts w @ new
           \<and> map connected_account_id new = map schedule_account_id good
           \<and> map batch_id new = map (\<lambda>s. Some batch) good
           \<and> map status new = map (\<lambda>s. initial_status sync) good
           \<and> map content_library_item_id new = map (\<lambda>s. cid) good"
  using assms
proof (induction good arbitrary: w created)
  case Nil
  from create_posts_refused [OF Nil.prems(3), of cid tz batch sync rest created]
  show ?case by auto
next
  case (Cons schedule good)
  from Cons.prems(2) obtain account
    where account: "get_account w (schedule_account_id schedule) = Some account"
      "is_active account"
    by (auto simp: schedulable_def split: option.splits)
  from create_round [OF account, of cid tz batch sync "good @ bad # rest" created]
  obtain post w1 where
    step: "create_posts w cid tz batch sync (schedule # good @ bad # rest) created
             = create_posts w1 cid tz batch sync (good @ bad # rest) (created @ [post])"
    and tables: "accounts w1 = accounts w" "committed w1 = committed w"
      "late_calls w1 = late_calls w"
    and rows: "fresh_ids w \<longrightarrow> posts w1 = posts w @ [post] \<and> fresh_ids w1"
    and fields: "connected_account_id post = schedule_account_id schedule"
      "batch_id post = Some batch" "content_library_item_id post = cid"
      "status post = initial_status sync"
    by blast
  have same: "schedulable w1 = schedulable w"
    using tables(1) by (rule schedulable_cong)
  have fresh1: "fresh_ids w1" and rows1: "posts w1 = posts w @ [post]"
    using rows Cons.prems(1) by simp_all
  have good1: "list_all (schedulable w1) good" and bad1: "\<not> schedulable w1 bad"
    using Cons.prems(2,3) by (simp_all add: same)
  from Cons.IH [OF fresh1 good1 bad1, of "created @ [post]"]
  obtain e w' new where
    res: "create_posts w1 cid tz batch sync (good @ bad # rest) (created @ [post])
            = (Inl (ValueError e), w')"
    and after: "committed w' = committed w1" "late_calls w' = late_calls w1"
      "posts w' = posts w1 @ new"
      "map connected_account_id new = map schedule_account_id good"
      "map batch_id new = map (\<lambda>s. Some batch) good"
      "map status new = map (\<lambda>s. initial_status sync) good"
      "map content_library_item_id new = map (\<lambda>s. cid) good"
    by blast
  have "create_posts w cid tz batch sync ((schedule # good) @ bad # rest) created
          = (Inl (ValueError e), w')"
    using step res by simp
  moreover have "posts w' = posts w @ (post # new)"
    using after(3) rows1 by simp
  moreover have "map connected_account_id (post # new) = map schedule_account_id (schedule # good)"
    "map batch_id (post # new) = map (\<lambda>s. Some batch) (schedule # good)"
    "map status (post # new) = map (\<lambda>s. initial_status sync) (schedule # good)"
    "map content_library_item_id (post # new) = map (\<lambda>s. cid) (schedule # good)"
    using after fields by simp_all
  moreover have "committed w' = committed w" "late_calls w' = late_calls w"
    using after(1,2) tables by simp_all
  ultimately show ?case
    by (intro exI [of _ e] exI [of _ w'] exI [of _ "post # new"] conjI)
qed

lemma no_pending_after_flush:
  assumes "status post' \<noteq> PENDING_SYNC"
  shows "filter (\<lambda>q. post_id q = post_id post') (get_pending_sync (commit (flush post' w))) = []"
proof -
  have "filter (\<lambda>q. post_id q = post_id post')
          (filter (\<lambda>p. status p = PENDING_SYNC)
             (map (\<lambda>q. if post_id q = post_id post' then post' else q) rows)) = []" for rows
    using assms by (induction rows) auto
  then show ?thesis
    by (simp add: get_pending_sync_def commit_fields flush_def filter_sort)
qed

lemma create_posts_all:
  assumes "fresh_ids w" and "list_all (schedulable w) schedules"
  shows "\<exists>new w'.
           create_posts w cid tz batch sync schedules created = (Inr (created @ new), w')
           \<and> posts w' = posts w @ new
           \<and> committed w' = committed w \<and> late_calls w' = late_calls w
           \<and> late_api_key w' = late_api_key w
           \<and> map connected_account_id new = map schedule_account_id schedules
           \<and> map batch_id new = map (\<lambda>s. Some batch) schedules
           \<and> map schedule_mode new = map (\<lambda>s. MULTI_PLATFORM) schedules
           \<and> map content_library_item_id new = map (\<lambda>s. cid) schedules"
  using assms
proof (induction schedules arbitrary: w created)
  case Nil
  then show ?case by simp
next
  case (Cons schedule schedules)
  from Cons.prems(2) obtain account
    where account: "get_account w (schedule_account_id schedule) = Some account"
      "is_active account"
    by (auto simp: schedulable_def split: option.splits)
  from create_round [OF account, of cid tz batch sync schedules created]
  obtain post w1 where
    step: "create_posts w cid tz batch sync (schedule # schedules) created
             = create_posts w1 cid tz batch sync schedules (created @ [post])"
    and tables: "accounts w1 = accounts w" "committed w1 = committed w"
      "late_calls w1 = late_calls w" "late_api_key w1 = late_api_key w"
    and rows: "fresh_ids w \<longrightarrow> posts w1 = posts w @ [post] \<and> fresh_ids w1"
    and fields: "connected_account_id post = schedule_account_id schedule"
      "batch_id post = Some batch" "schedule_mode post = MULTI_PLATFORM"
      "content_library_item_id post = cid"
    by blast
  have same: "schedulable w1 = schedulable w"
    using tables(1) by (rule schedulable_cong)
  have fresh1: "fresh_ids w1" and rows1: "posts w1 = posts w @ [post]"
    using rows Cons.prems(1) by simp_all
  have all1: "list_all (schedulable w1) schedules"
    using Cons.prems(2) by (simp add: same)
  from Cons.IH [OF fresh1 all1, of "created @ [post]"]
  obtain new w' where
    res: "create_posts w1 cid tz batch sync schedules (created @ [post])
            = (Inr ((created @ [post]) @ new), w')"
    and after: "posts w' = posts w1 @ new" "committed w' = committed w1"
      "late_calls w' = late_calls w1" "late_api_key w' = late_api_key w1"
      "map connected_account_id new = map schedule_account_id schedules"
      "map batch_id new = map (\<lambda>s. Some batch) schedules"
      "map schedule_mode new = map (\<lambda>s. MULTI_PLATFORM) schedules"
      "map content_library_item_id new = map (\<lambda>s. cid) schedules"
    by blast
  have "create_posts w cid tz batch sync (schedule # schedules) created
          = (Inr (created @ (post # new)), w')"
    using step res by simp
  moreover have "posts w' = posts w @ (post # new)"
    using after(1) rows1 by simp
  moreover have "committed w' = committed w" "late_calls w' = late_calls w"
    "late_api_key w' = late_api_key w"
    using after(2,3,4) tables by simp_all
  moreover have
    "map connected_account_id (post # new) = map schedule_account_id (schedule # schedules)"
    "map batch_id (post # new) = map (\<lambda>s. Some batch) (schedule # schedules)"
    "map schedule_mode (post # new) = map (\<lambda>s. MULTI_PLATFORM) (schedule # schedules)"
    "map content_library_item_id (post # new) = map (\<lambda>s. cid) (schedule # schedules)"
    using after fields by simp_all
  ultimately show ?case
    by (intro exI [of _ "post # new"] exI [of _ w'] conjI)
qed

lemma schedule_single_rows:
  assumes fresh: "fresh_ids w"
      and account: "get_account w aid = Some account" "is_active account"
      and content: "get_by_id_with_media w cid \<noteq> None"
  shows "\<exists>post. posts (snd (schedule_single client w cid aid sched_for tz cfg sync))
                  = posts w @ [post]
           \<and> committed (snd (schedule_single client w cid aid sched_for tz cfg sync))
               = posts (snd (schedule_single client w cid aid sched_for tz cfg sync))
           \<and> batch_id post = None \<and> schedule_mode post = SINGLE_PLATFORM
           \<and> content_library_item_id post = cid \<and> connected_account_id post = aid"
proof -
  define draft where
    "draft = fst (repo_create w cid aid (account_platform account) sched_for
                    SINGLE_PLATFORM tz None cfg)"
  define w1 where
    "w1 = snd (repo_create w cid aid (account_platform account) sched_for
                    SINGLE_PLATFORM tz None cfg)"
  define post where "post = draft\<lparr>status := initial_status sync\<rparr>"
  define w3 where "w3 = commit (flush post w1)"
  have made: "repo_create w cid aid (account_platform account) sched_for
                SINGLE_PLATFORM tz None cfg = (draft, w1)"
    by (simp add: draft_def w1_def)
  have plain: "update_status w1 draft (initial_status sync) None None None None None
                 = (post, flush post w1)"
    by (simp add: update_status_plain initial_status_def post_def)
  have fields: "batch_id post = None" "schedule_mode post = SINGLE_PLATFORM"
      "content_library_item_id post = cid" "connected_account_id post = aid"
      "post_id post = next_id w" "post_id draft = next_id w"
    by (simp_all add: post_def draft_def repo_create_def Let_def)
  have w1_rows: "posts w1 = posts w @ [draft]"
    by (simp add: w1_def draft_def repo_create_def Let_def)
  have old: "list_all (\<lambda>p. post_id p < next_id w) (posts w)"
    using fresh by (simp add: fresh_ids_def)
  have "map (\<lambda>q. if post_id q = post_id post then post else q) (posts w) = posts w"
    using flush_fresh [OF old fields(5)] .
  then have rows: "posts w3 = posts w @ [post]"
    by (simp add: w3_def commit_fields flush_def w1_rows fields)
  have comm: "committed w3 = posts w3"
    by (simp add: w3_def commit_fields)
  have run: "schedule_single client w cid aid sched_for tz cfg sync
               = (if sync then sync_to_late client w3 post else (Inr post, w3))"
  proof -
    from content obtain item where "get_by_id_with_media w cid = Some item"
      by auto
    with account show ?thesis
      unfolding w3_def
      by (simp add: schedule_single_def made plain Let_def split del: if_split)
  qed
  have "snd (schedule_single client w cid aid sched_for tz cfg sync) = w3"
    by (simp add: run sync_to_late_raises)
  with rows comm fields show ?thesis by auto
qed

lemma schedule_multi_rows:
  assumes fresh: "fresh_ids w"
      and content: "get_by_id_with_media w cid \<noteq> None"
      and valid: "list_all (schedulable w) schedules"
  shows "\<exists>new. posts (snd (schedule_multi client w cid schedules tz sync batch))
                 = posts w @ new
           \<and> committed (snd (schedule_multi client w cid schedules tz sync batch))
               = posts (snd (schedule_multi client w cid schedules tz sync batch))
           \<and> map connected_account_id new = map schedule_account_id schedules
           \<and> map batch_id new = map (\<lambda>s. Some batch) schedules
           \<and> map schedule_mode new = map (\<lambda>s. MULTI_PLATFORM) schedules
           \<and> map content_library_item_id new = map (\<lambda>s. cid) schedules
           \<and> (if sync \<and> schedules \<noteq> []
               then isl (fst (schedule_multi client w cid schedules tz sync batch))
               else fst (schedule_multi client w cid schedules tz sync batch)
                      = Inr (batch, new))"
proof -
  from create_posts_all [OF fresh valid, of cid tz batch sync "[]"]
  obtain new w1 where
    loop: "create_posts w cid tz batch sync schedules [] = (Inr new, w1)"
    and rows: "posts w1 = posts w @ new"
    and made: "map connected_account_id new = map schedule_account_id schedules"
      "map batch_id new = map (\<lambda>s. Some batch) schedules"
      "map schedule_mode new = map (\<lambda>s. MULTI_PLATFORM) schedules"
      "map content_library_item_id new = map (\<lambda>s. cid) schedules"
    by auto
  have len: "length new = length schedules"
    using made(1) by (metis length_map)
  have run: "schedule_multi client w cid schedules tz sync batch =
               (if sync
                then (case sync_posts client (commit w1) new of
                        (Inl e, w3) \<Rightarrow> (Inl e, w3)
                      | (Inr synced, w3) \<Rightarrow> (Inr (batch, synced), w3))
                else (Inr (batch, new), commit w1))"
  proof -
    from content obtain item where "get_by_id_with_media w cid = Some item"
      by auto
    then show ?thesis
      by (simp add: schedule_multi_def loop Let_def split del: if_split)
  qed
  have world: "snd (schedule_multi client w cid schedules tz sync batch) = commit w1"
  proof (cases sync)
    case False
    with run show ?thesis by simp
  next
    case True
    obtain r w3 where pushed: "sync_posts client (commit w1) new = (r, w3)"
      by (cases "sync_posts client (commit w1) new")
    then have "w3 = commit w1"
      using sync_posts_world [of client "commit w1" new] by simp
    with True pushed run show ?thesis
      by (cases r) simp_all
  qed
  have outcome: "if sync \<and> schedules \<noteq> []
               then isl (fst (schedule_multi client w cid schedules tz sync batch))
               else fst (schedule_multi client w cid schedules tz sync batch)
                      = Inr (batch, new)"
  proof (cases "sync \<and> schedules \<noteq> []")
    case True
    then obtain post rest where "new = post # rest"
      using len by (cases new) auto
    with True run show ?thesis
      by (simp add: sync_to_late_raises)
  next
    case False
    then have "\<not> sync \<or> new = []"
      using len by auto
    with False run show ?thesis
      by auto
  qed
  have "posts (commit w1) = posts w @ new" "committed (commit w1) = posts (commit w1)"
    by (simp_all add: commit_fields rows)
  with world made outcome show ?thesis
    by (intro exI [of _ new]) simp
qed

section \<open>The repository's reschedule\<close>

text \<open>
  Claim C10. For a post that is neither \<open>PUBLISHED\<close> nor \<open>CANCELLED\<close>,
  \<open>ScheduledPostRepository.reschedule\<close> writes \<open>scheduled_for\<close>, writes \<open>timezone\<close> only
  when a non-empty one is given, and changes \<open>status\<close> only from \<open>SCHEDULED\<close> to
  \<open>PENDING_SYNC\<close>. Every other field of the post keeps its value: \<open>late_post_id\<close>,
  \<open>batch_id\<close>, \<open>retry_count\<close>, \<open>error_message\<close>, \<open>failed_at\<close>, \<open>published_at\<close>,
  \<open>platform\<close>, \<open>schedule_mode\<close>, \<open>platform_specific_config\<close> and the rest; the row
  flushed is that post, and neither the committed rows nor the requests to Late change.
\<close>

theorem repo_reschedule_frame:
  assumes "status post \<noteq> PUBLISHED" and "status post \<noteq> CANCELLED"
  shows "fst (repo_reschedule w post new_time tz) =
           post\<lparr>scheduled_for := new_time,
                timezone := (case tz of None \<Rightarrow> timezone post
                             | Some z \<Rightarrow> if z = [] then timezone post else z),
                status := (if status post = SCHEDULED then PENDING_SYNC else status post)\<rparr>
         \<and> late_post_id (fst (repo_reschedule w post new_time tz)) = late_post_id post
         \<and> batch_id (fst (repo_reschedule w post new_time tz)) = batch_id post
         \<and> retry_count (fst (repo_reschedule w post new_time tz)) = retry_count post
         \<and> error_message (fst (repo_reschedule w post new_time tz)) = error_message post
         \<and> failed_at (fst (repo_reschedule w post new_time tz)) = failed_at post
         \<and> published_at (fst (repo_reschedule w post new_time tz)) = published_at post
         \<and> platform (fst (repo_reschedule w post new_time tz)) = platform post
         \<and> schedule_mode (fst (repo_reschedule w post new_time tz)) = schedule_mode post
         \<and> platform_specific_config (fst (repo_reschedule w post new_time tz))
             = platform_specific_config post
         \<and> snd (repo_reschedule w post new_time tz)
             = flush (fst (repo_reschedule w post new_time tz)) w
         \<and> committed (snd (repo_reschedule w post new_time tz)) = committed w
         \<and> late_calls (snd (repo_reschedule w post new_time tz)) = late_calls w"
  by (simp add: repo_reschedule_def reschedule_row_def flush_def Let_def split: option.splits)

theorem repo_reschedule_frame_witness:
  "status (example_post 1 SCHEDULED (Some ''ext-123'')) \<noteq> PUBLISHED
   \<and> status (example_post 1 SCHEDULED (Some ''ext-123'')) \<noteq> CANCELLED
   \<and> fst (repo_reschedule (example_world [example_post 1 SCHEDULED (Some ''ext-123'')])
            (example_post 1 SCHEDULED (Some ''ext-123'')) 2000 None)
       = (example_post 1 SCHEDULED (Some ''ext-123''))
           \<lparr>scheduled_for := 2000, status := PENDING_SYNC\<rparr>
   \<and> late_post_id
         (fst (repo_reschedule (example_world [example_post 1 SCHEDULED (Some ''ext-123'')])
            (example_post 1 SCHEDULED (Some ''ext-123'')) 2000 None)) = Some ''ext-123''"
  using repo_reschedule_frame
    [of "example_post 1 SCHEDULED (Some ''ext-123'')"
        "example_world [example_post 1 SCHEDULED (Some ''ext-123'')]" 2000 None]
  by (simp add: example_post_def)

section \<open>Terminal states\<close>

text \<open>
  Claim C1. A post that is \<open>PUBLISHED\<close> or \<open>CANCELLED\<close> keeps its status under
  reschedule, cancel and publish-now. The code departs from this at publish-now:
  \<open>publish_now\<close> refuses a \<open>PUBLISHED\<close> post only, so a \<open>CANCELLED\<close> post is set to
  \<open>PUBLISHING\<close>, sent to Late, and ends \<open>PUBLISHED\<close> (or \<open>FAILED\<close> when Late fails),
  while \<open>reschedule\<close> refuses the same post. The theorem runs the code on a cancelled
  post.
\<close>

theorem publish_now_on_cancelled:
  "status (example_post 1 CANCELLED None) = CANCELLED
   \<and> map status (committed (snd (publish_now late_accepts
          (example_world [example_post 1 CANCELLED None]) 1))) = [PUBLISHED]
   \<and> map_sum id status (fst (publish_now late_accepts
          (example_world [example_post 1 CANCELLED None]) 1)) = Inr PUBLISHED
   \<and> map status (committed (snd (publish_now (late_rejects ''down'')
          (example_world [example_post 1 CANCELLED None]) 1))) = [FAILED]
   \<and> fst (reschedule late_accepts (example_world [example_post 1 CANCELLED None]) 1 2000 None)
       = Inl (ValueError (CannotReschedule CANCELLED))"
  by (simp add: publish_now_def reschedule_def examples operations)

section \<open>Cancelling a post that Late knows\<close>

text \<open>
  Claim C3, as amended. For a post that is not \<open>PUBLISHED\<close> and carries a Late post id,
  \<open>cancel\<close> first asks Late to delete the post. When that request fails, the
  \<open>LateApiError\<close> is raised to the caller of \<open>cancel\<close> and the post is left as it was,
  in the session and in the committed rows: it does not become \<open>CANCELLED\<close>. Only when
  the request succeeds is the post set to \<open>CANCELLED\<close> and committed. Without an API key
  the client cannot be built: its \<open>LateApiError\<close> reaches the caller in the same way,
  with nothing sent and nothing changed.
\<close>

theorem cancel_remote_delete:
  assumes found: "get_by_id_with_relations w pid = Some post"
      and live: "status post \<noteq> PUBLISHED"
      and remote: "late_post_id post = Some lpid" "lpid \<noteq> []"
  shows "if truthy (late_api_key w)
         then (case delete_post client (late_calls w) lpid of
                 Inl msg \<Rightarrow>
                   cancel client w pid = (Inl (LateApiError msg), issue (DeletePost lpid) w)
                   \<and> get_by_id_with_relations (snd (cancel client w pid)) pid = Some post
                   \<and> posts (snd (cancel client w pid)) = posts w
                   \<and> committed (snd (cancel client w pid)) = committed w
               | Inr ok \<Rightarrow>
                   fst (cancel client w pid) = Inr (post\<lparr>status := CANCELLED\<rparr>)
                   \<and> get_by_id_with_relations (snd (cancel client w pid)) pid
                       = Some (post\<lparr>status := CANCELLED\<rparr>)
                   \<and> committed (snd (cancel client w pid))
                       = posts (snd (cancel client w pid)))
         else cancel client w pid = (Inl (LateApiError ''Late API key not configured''), w)"
proof (cases "truthy (late_api_key w)")
  case False
  with assms show ?thesis
    by (simp add: cancel_def delete_from_late_def LateApiClient_init_def)
next
  case True
  have pid: "post_id (post\<lparr>status := CANCELLED\<rparr>) = pid"
    using get_post_id [OF found] by simp
  have unfolded: "cancel client w pid =
      (case delete_post client (late_calls w) lpid of
         Inl msg \<Rightarrow> (Inl (LateApiError msg), issue (DeletePost lpid) w)
       | Inr ok \<Rightarrow>
           (Inr (post\<lparr>status := CANCELLED\<rparr>),
            commit (flush (post\<lparr>status := CANCELLED\<rparr>) (issue (DeletePost lpid) w))))"
    using assms True
    by (simp add: cancel_def delete_from_late_def repo_cancel_def LateApiClient_init_def
          LateApiClient_delete_post_def Let_def split: sum.splits)
  have after: "get_by_id_with_relations
                 (commit (flush (post\<lparr>status := CANCELLED\<rparr>) (issue (DeletePost lpid) w))) pid
                 = Some (post\<lparr>status := CANCELLED\<rparr>)"
    using get_flush [of "issue (DeletePost lpid) w" pid post "post\<lparr>status := CANCELLED\<rparr>"]
      found pid by (simp add: get_commit get_issue)
  show ?thesis
    using found after True
    by (simp add: unfolded get_issue issue_fields commit_fields split: sum.splits)
qed

theorem cancel_remote_delete_witness:
  "cancel (late_rejects ''boom'') (example_world [example_post 1 SCHEDULED (Some ''ext-123'')]) 1
     = (Inl (LateApiError ''boom''),
        issue (DeletePost ''ext-123'') (example_world [example_post 1 SCHEDULED (Some ''ext-123'')]))
   \<and> fst (cancel late_accepts (example_world [example_post 1 SCHEDULED (Some ''ext-123'')]) 1)
     = Inr ((example_post 1 SCHEDULED (Some ''ext-123''))\<lparr>status := CANCELLED\<rparr>)"
  using cancel_remote_delete
    [of "example_world [example_post 1 SCHEDULED (Some ''ext-123'')]" 1
        "example_post 1 SCHEDULED (Some ''ext-123'')" "''ext-123''" "late_rejects ''boom''"]
    cancel_remote_delete
    [of "example_world [example_post 1 SCHEDULED (Some ''ext-123'')]" 1
        "example_post 1 SCHEDULED (Some ''ext-123'')" "''ext-123''" late_accepts]
  by (simp add: examples get_by_id_with_relations_def)

text \<open>The claim as stated fails: Late refuses the deletion of a \<open>SCHEDULED\<close> post, the
  error reaches the caller and the post is still \<open>SCHEDULED\<close>.\<close>

theorem cancel_best_effort_counterexample:
  "fst (cancel (late_rejects ''boom'')
         (example_world [example_post 1 SCHEDULED (Some ''ext-123'')]) 1)
     = Inl (LateApiError ''boom'')
   \<and> map status (posts (snd (cancel (late_rejects ''boom'')
         (example_world [example_post 1 SCHEDULED (Some ''ext-123'')]) 1))) = [SCHEDULED]
   \<and> map status (committed (snd (cancel (late_rejects ''boom'')
         (example_world [example_post 1 SCHEDULED (Some ''ext-123'')]) 1))) = [SCHEDULED]"
  by (simp add: cancel_def examples operations)

section \<open>Pushing a post to Late\<close>

text \<open>
  Claim C2. For a post whose Late post id is already set, a second push creates no second
  remote post: the call is rejected with an error and no create request is issued. The
  push does not look at \<open>late_post_id\<close>; it is rejected because the client cannot be
  built without an API key, because the content or the account is not found, or because
  the create request, which carries \<open>scheduled_for\<close>, cannot be encoded. The session
  rows, the committed rows and the requests issued are as before the push, and a sweep
  leaves the world as it was.
\<close>

theorem second_push_rejected:
  assumes "late_post_id post = Some lpid"
  shows "sync_to_late client w post =
           (Inl (if \<not> truthy (late_api_key w)
                 then LateApiError ''Late API key not configured''
                 else if pushable w post then TypeError
                 else ValueError ContentOrAccountNotFound), w)
         \<and> late_calls (snd (sync_to_late client w post)) = late_calls w
         \<and> posts (snd (sync_to_late client w post)) = posts w
         \<and> committed (snd (sync_to_late client w post)) = committed w
         \<and> snd (sync_pending client w) = w"
  by (simp add: sync_to_late_raises sync_pending_def sync_loop_world)

theorem second_push_rejected_witness:
  "late_post_id (example_post 1 PENDING_SYNC (Some ''ext-123'')) = Some ''ext-123''
   \<and> sync_to_late late_accepts
         (example_world [example_post 1 PENDING_SYNC (Some ''ext-123'')])
         (example_post 1 PENDING_SYNC (Some ''ext-123''))
       = (Inl TypeError, example_world [example_post 1 PENDING_SYNC (Some ''ext-123'')])
   \<and> late_calls (snd (sync_pending late_accepts
         (example_world [example_post 1 PENDING_SYNC (Some ''ext-123'')]))) = []
   \<and> map late_post_id (committed (snd (sync_pending late_accepts
         (example_world [example_post 1 PENDING_SYNC (Some ''ext-123'')]))))
       = [Some ''ext-123'']"
  using second_push_rejected
    [of "example_post 1 PENDING_SYNC (Some ''ext-123'')" "''ext-123''" late_accepts
        "example_world [example_post 1 PENDING_SYNC (Some ''ext-123'')]"]
  by (simp add: pushable_def examples get_by_id_with_media_def get_account_def)


section \<open>Rescheduling a post that Late knows\<close>



section \<open>Rescheduling a failed post\<close>

text \<open>
  Claim C8, as amended. Rescheduling a \<open>FAILED\<close> post does not return it to
  \<open>PENDING_SYNC\<close>: the repository demotes \<open>SCHEDULED\<close> posts only, so the post keeps
  \<open>FAILED\<close> with its new time and is committed so, and the sweep does not select it.
  Without a Late post id the call returns that post; with one, the service goes on to
  \<open>_update_late_schedule\<close>, whose error is raised to the caller with the row unchanged.
\<close>

theorem reschedule_failed:
  assumes found: "get_by_id_with_relations w pid = Some post"
      and failed: "status post = FAILED"
  shows "let new_tz = (case tz of None \<Rightarrow> timezone post
                       | Some z \<Rightarrow> if z = [] then timezone post else z);
             moved = post\<lparr>scheduled_for := new_time, timezone := new_tz\<rparr>;
             result = reschedule client w pid new_time tz
         in fst (repo_reschedule w post new_time tz) = moved
            \<and> status moved = FAILED
            \<and> get_by_id_with_relations (snd result) pid = Some moved
            \<and> committed (snd result) = posts (snd result)
            \<and> late_calls (snd result) = late_calls w
            \<and> filter (\<lambda>q. post_id q = pid) (get_pending_sync (snd result)) = []
            \<and> fst result =
                (if truthy (late_post_id post)
                 then Inl (if truthy (late_api_key w) then TypeError
                           else LateApiError ''Late API key not configured'')
                 else Inr moved)"
proof -
  define new_tz where "new_tz = (case tz of None \<Rightarrow> timezone post
                       | Some z \<Rightarrow> if z = [] then timezone post else z)"
  define moved where "moved = post\<lparr>scheduled_for := new_time, timezone := new_tz\<rparr>"
  define w1 where "w1 = commit (flush moved w)"
  have pid: "post_id post = pid"
    using found by (rule get_post_id)
  have row: "reschedule_row post new_time tz = moved"
    using failed
    by (simp add: reschedule_row_def moved_def new_tz_def split: option.splits)
  have facts: "status moved = FAILED" "late_post_id moved = late_post_id post"
    "post_id moved = pid"
    using failed pid by (simp_all add: moved_def)
  have first: "fst (repo_reschedule w post new_time tz) = moved"
    by (simp add: repo_reschedule_def row Let_def)
  have g1: "get_by_id_with_relations w1 pid = Some moved"
    using get_flush [OF found, of moved] facts by (simp add: w1_def get_commit)
  have rest: "committed w1 = posts w1" "late_calls w1 = late_calls w"
    "late_api_key w1 = late_api_key w"
    by (simp_all add: w1_def commit_fields flush_fields)
  have queue: "filter (\<lambda>q. post_id q = pid) (get_pending_sync w1) = []"
    using no_pending_after_flush [of moved w] facts by (simp add: w1_def)
  have live: "reschedule client w pid new_time tz =
                (if truthy (late_post_id post) then update_late_schedule client w1 moved
                 else (Inr moved, w1))"
    using reschedule_live [OF found, of client new_time tz] failed
    by (simp add: row w1_def)
  have res: "reschedule client w pid new_time tz =
                (if truthy (late_post_id post)
                 then Inl (if truthy (late_api_key w) then TypeError
                           else LateApiError ''Late API key not configured'')
                 else Inr moved, w1)"
  proof (cases "truthy (late_post_id post)")
    case False
    then show ?thesis by (simp add: live)
  next
    case True
    then obtain lpid where remote: "late_post_id moved = Some lpid" "lpid \<noteq> []"
      using facts(2) by (cases "late_post_id post") auto
    from update_late_schedule_raises [OF remote, of client w1] True
    show ?thesis by (simp add: live rest)
  qed
  show ?thesis
    unfolding Let_def new_tz_def [symmetric] moved_def [symmetric]
    using first facts(1) g1 rest queue by (simp add: res)
qed

theorem reschedule_failed_witness:
  "reschedule late_accepts (example_world [example_post 1 FAILED None]) 1 2000 None
     = (Inr ((example_post 1 FAILED None)\<lparr>scheduled_for := 2000\<rparr>),
        example_world [(example_post 1 FAILED None)\<lparr>scheduled_for := 2000\<rparr>])
   \<and> status ((example_post 1 FAILED None)\<lparr>scheduled_for := 2000\<rparr>) = FAILED
   \<and> reschedule late_accepts
        (example_world [example_post 1 FAILED (Some ''ext-123'')]) 1 2000 None
     = (Inl TypeError,
        example_world [(example_post 1 FAILED (Some ''ext-123''))\<lparr>scheduled_for := 2000\<rparr>])"
  using reschedule_failed
    [of "example_world [example_post 1 FAILED None]" 1 "example_post 1 FAILED None"
        None 2000 late_accepts]
    reschedule_failed
    [of "example_world [example_post 1 FAILED (Some ''ext-123'')]" 1
        "example_post 1 FAILED (Some ''ext-123'')" None 2000 late_accepts]
  by (simp add: reschedule_def examples operations)

text \<open>The claim as stated fails: a \<open>FAILED\<close> post without a Late post id is still
  \<open>FAILED\<close> after the reschedule, and the sweep does not select it.\<close>

theorem reschedule_failed_counterexample:
  "status (example_post 1 FAILED None) = FAILED
   \<and> map_sum id status (fst (reschedule late_accepts
          (example_world [example_post 1 FAILED None]) 1 2000 None)) = Inr FAILED
   \<and> map status (committed (snd (reschedule late_accepts
          (example_world [example_post 1 FAILED None]) 1 2000 None))) = [FAILED]
   \<and> get_pending_sync (snd (reschedule late_accepts
          (example_world [example_post 1 FAILED None]) 1 2000 None)) = []"
  by (simp add: reschedule_def get_pending_sync_def examples operations)

section \<open>The sweep over pending posts\<close>




section \<open>Scheduling to several accounts\<close>

text \<open>
  Claim C5, as amended. When an entry of \<open>account_schedules\<close> fails validation (its
  account is missing or inactive) after earlier entries passed, \<open>schedule_multi\<close> raises
  \<open>ValueError\<close> before it reaches its commit. It rolls nothing back: the posts made for
  the earlier accounts are rows of the open session, one per earlier entry, with the batch
  id of the call. They are flushed, not committed: the committed rows are those from
  before the call, and no request has gone to Late.
\<close>

theorem schedule_multi_partial_batch:
  assumes content: "get_by_id_with_media w cid = Some content"
      and fresh: "fresh_ids w"
      and earlier: "list_all (schedulable w) earlier"
      and later: "\<not> schedulable w later"
  shows "\<exists>e w' new.
           schedule_multi client w cid (earlier @ later # rest) tz sync batch
             = (Inl (ValueError e), w')
           \<and> committed w' = committed w
           \<and> late_calls w' = late_calls w
           \<and> posts w' = posts w @ new
           \<and> map connected_account_id new = map schedule_account_id earlier
           \<and> map batch_id new = map (\<lambda>s. Some batch) earlier
           \<and> map status new = map (\<lambda>s. initial_status sync) earlier
           \<and> map content_library_item_id new = map (\<lambda>s. cid) earlier"
proof -
  from create_posts_partial [OF fresh earlier later, of cid tz batch sync rest "[]"]
  obtain e w' new where
    loop: "create_posts w cid tz batch sync (earlier @ later # rest) []
             = (Inl (ValueError e), w')"
    and after: "committed w' = committed w" "late_calls w' = late_calls w"
      "posts w' = posts w @ new"
      "map connected_account_id new = map schedule_account_id earlier"
      "map batch_id new = map (\<lambda>s. Some batch) earlier"
      "map status new = map (\<lambda>s. initial_status sync) earlier"
      "map content_library_item_id new = map (\<lambda>s. cid) earlier"
    by blast
  have "schedule_multi client w cid (earlier @ later # rest) tz sync batch
          = (Inl (ValueError e), w')"
    by (simp add: schedule_multi_def content loop)
  with after show ?thesis
    by (intro exI [of _ e] exI [of _ w'] exI [of _ new] conjI)
qed

theorem schedule_multi_partial_batch_witness:
  "fst (schedule_multi late_accepts (wider_world []) 10 [schedule_on 20, schedule_on 21]
          ''UTC'' True ''batch-1'')
     = Inl (ValueError (AccountPlatformNotActive YOUTUBE))
   \<and> map connected_account_id (posts (snd (schedule_multi late_accepts (wider_world []) 10
          [schedule_on 20, schedule_on 21] ''UTC'' True ''batch-1''))) = [20]
   \<and> map batch_id (posts (snd (schedule_multi late_accepts (wider_world []) 10
          [schedule_on 20, schedule_on 21] ''UTC'' True ''batch-1''))) = [Some ''batch-1'']
   \<and> map status (posts (snd (schedule_multi late_accepts (wider_world []) 10
          [schedule_on 20, schedule_on 21] ''UTC'' True ''batch-1''))) = [PENDING_SYNC]"
  using schedule_multi_partial_batch
    [of "wider_world []" 10 example_content "[schedule_on 20]" "schedule_on 21"
        late_accepts "[]" "''UTC''" True "''batch-1''"]
  by (simp add: schedule_multi_def schedulable_def fresh_ids_def examples operations)

text \<open>The claim as stated fails where it says the earlier posts remain persisted: the
  second account is inactive, the call raises, one post sits in the session and the
  committed rows are still empty.\<close>

theorem schedule_multi_not_persisted_counterexample:
  "fst (schedule_multi late_accepts (wider_world []) 10 [schedule_on 20, schedule_on 21]
          ''UTC'' True ''batch-1'')
     = Inl (ValueError (AccountPlatformNotActive YOUTUBE))
   \<and> length (posts (snd (schedule_multi late_accepts (wider_world []) 10
          [schedule_on 20, schedule_on 21] ''UTC'' True ''batch-1''))) = 1
   \<and> committed (snd (schedule_multi late_accepts (wider_world []) 10
          [schedule_on 20, schedule_on 21] ''UTC'' True ''batch-1'')) = []
   \<and> late_calls (snd (schedule_multi late_accepts (wider_world []) 10
          [schedule_on 20, schedule_on 21] ''UTC'' True ''batch-1'')) = []"
  by (simp add: schedule_multi_def examples operations)

text \<open>
  Claim C9, as amended. The post that \<open>schedule_single\<close> creates has no batch id and the
  mode \<open>SINGLE_PLATFORM\<close>; the posts that one call of \<open>schedule_multi\<close> creates all carry
  the batch id of the call, the mode \<open>MULTI_PLATFORM\<close> and the content of the call, so a
  batch id is present exactly on the posts of mode multi. These are the rows the call
  adds to the session and commits, whether or not it then returns. Their accounts are the
  accounts of \<open>account_schedules\<close>, in that order and with its repetitions: they are
  pairwise distinct exactly when the accounts supplied are.
\<close>

theorem schedule_batch_rows:
  assumes fresh: "fresh_ids w"
  shows "(\<forall>account.
            get_account w aid = Some account \<and> is_active account
            \<and> get_by_id_with_media w cid \<noteq> None \<longrightarrow>
            (\<exists>post.
               posts (snd (schedule_single client w cid aid sched_for tz cfg sync))
                 = posts w @ [post]
               \<and> committed (snd (schedule_single client w cid aid sched_for tz cfg sync))
                   = posts (snd (schedule_single client w cid aid sched_for tz cfg sync))
               \<and> batch_id post = None \<and> schedule_mode post = SINGLE_PLATFORM
               \<and> content_library_item_id post = cid \<and> connected_account_id post = aid))
         \<and> (get_by_id_with_media w cid \<noteq> None \<and> list_all (schedulable w) schedules \<longrightarrow>
            (\<exists>new.
               posts (snd (schedule_multi client w cid schedules tz sync batch))
                 = posts w @ new
               \<and> committed (snd (schedule_multi client w cid schedules tz sync batch))
                   = posts (snd (schedule_multi client w cid schedules tz sync batch))
               \<and> map batch_id new = map (\<lambda>s. Some batch) schedules
               \<and> map schedule_mode new = map (\<lambda>s. MULTI_PLATFORM) schedules
               \<and> map content_library_item_id new = map (\<lambda>s. cid) schedules
               \<and> map connected_account_id new = map schedule_account_id schedules
               \<and> distinct (map connected_account_id new)
                   = distinct (map schedule_account_id schedules)
               \<and> (if sync \<and> schedules \<noteq> []
                   then isl (fst (schedule_multi client w cid schedules tz sync batch))
                   else fst (schedule_multi client w cid schedules tz sync batch)
                          = Inr (batch, new))))"
proof (intro conjI allI impI)
  fix account
  assume "get_account w aid = Some account \<and> is_active account
            \<and> get_by_id_with_media w cid \<noteq> None"
  then show "\<exists>post.
               posts (snd (schedule_single client w cid aid sched_for tz cfg sync))
                 = posts w @ [post]
               \<and> committed (snd (schedule_single client w cid aid sched_for tz cfg sync))
                   = posts (snd (schedule_single client w cid aid sched_for tz cfg sync))
               \<and> batch_id post = None \<and> schedule_mode post = SINGLE_PLATFORM
               \<and> content_library_item_id post = cid \<and> connected_account_id post = aid"
    using schedule_single_rows [OF fresh, of aid account cid client sched_for tz cfg sync]
    by simp
next
  assume "get_by_id_with_media w cid \<noteq> None \<and> list_all (schedulable w) schedules"
  then have content: "get_by_id_with_media w cid \<noteq> None"
    and valid: "list_all (schedulable w) schedules"
    by simp_all
  from schedule_multi_rows [OF fresh content valid, of client tz sync batch]
  obtain new where new:
    "posts (snd (schedule_multi client w cid schedules tz sync batch)) = posts w @ new"
    "committed (snd (schedule_multi client w cid schedules tz sync batch))
       = posts (snd (schedule_multi client w cid schedules tz sync batch))"
    "map connected_account_id new = map schedule_account_id schedules"
    "map batch_id new = map (\<lambda>s. Some batch) schedules"
    "map schedule_mode new = map (\<lambda>s. MULTI_PLATFORM) schedules"
    "map content_library_item_id new = map (\<lambda>s. cid) schedules"
    "if sync \<and> schedules \<noteq> []
       then isl (fst (schedule_multi client w cid schedules tz sync batch))
       else fst (schedule_multi client w cid schedules tz sync batch) = Inr (batch, new)"
    by blast
  show "\<exists>new.
               posts (snd (schedule_multi client w cid schedules tz sync batch))
                 = posts w @ new
               \<and> committed (snd (schedule_multi client w cid schedules tz sync batch))
                   = posts (snd (schedule_multi client w cid schedules tz sync batch))
               \<and> map batch_id new = map (\<lambda>s. Some batch) schedules
               \<and> map schedule_mode new = map (\<lambda>s. MULTI_PLATFORM) schedules
               \<and> map content_library_item_id new = map (\<lambda>s. cid) schedules
               \<and> map connected_account_id new = map schedule_account_id schedules
               \<and> distinct (map connected_account_id new)
                   = distinct (map schedule_account_id schedules)
               \<and> (if sync \<and> schedules \<noteq> []
                   then isl (fst (schedule_multi client w cid schedules tz sync batch))
                   else fst (schedule_multi client w cid schedules tz sync batch)
                          = Inr (batch, new))"
    using new by (intro exI [of _ new]) simp
qed

theorem schedule_batch_rows_witness:
  "map batch_id (committed (snd (schedule_single late_accepts (two_account_world []) 10 20
       1000 ''UTC'' None True))) = [None]
   \<and> map schedule_mode (committed (snd (schedule_single late_accepts (two_account_world [])
       10 20 1000 ''UTC'' None True))) = [SINGLE_PLATFORM]
   \<and> fst (schedule_multi late_accepts (two_account_world []) 10
       [schedule_on 20, schedule_on 22] ''UTC'' True ''batch-1'') = Inl TypeError
   \<and> map connected_account_id (committed (snd (schedule_multi late_accepts
       (two_account_world []) 10 [schedule_on 20, schedule_on 22] ''UTC'' True ''batch-1'')))
     = [20, 22]
   \<and> map batch_id (committed (snd (schedule_multi late_accepts
       (two_account_world []) 10 [schedule_on 20, schedule_on 22] ''UTC'' True ''batch-1'')))
     = [Some ''batch-1'', Some ''batch-1'']
   \<and> map schedule_mode (committed (snd (schedule_multi late_accepts
       (two_account_world []) 10 [schedule_on 20, schedule_on 22] ''UTC'' True ''batch-1'')))
     = [MULTI_PLATFORM, MULTI_PLATFORM]
   \<and> map content_library_item_id (committed (snd (schedule_multi late_accepts
       (two_account_world []) 10 [schedule_on 20, schedule_on 22] ''UTC'' True ''batch-1'')))
     = [10, 10]"
  using schedule_batch_rows
    [where w = "two_account_world []" and client = late_accepts and cid = 10 and aid = 20
       and sched_for = 1000 and tz = "''UTC''" and cfg = None and sync = True
       and schedules = "[schedule_on 20, schedule_on 22]" and batch = "''batch-1''"]
  by (simp add: schedule_single_def schedule_multi_def fresh_ids_def examples operations)

text \<open>The claim as stated fails where it says the accounts of a batch are pairwise
  distinct: the same account supplied twice gives two committed posts of one batch on
  that account.\<close>

theorem schedule_multi_same_account_counterexample:
  "map connected_account_id (committed (snd (schedule_multi late_accepts (example_world []) 10
        [schedule_on 20, schedule_on 20] ''UTC'' True ''batch-1''))) = [20, 20]
   \<and> map batch_id (committed (snd (schedule_multi late_accepts (example_world []) 10
        [schedule_on 20, schedule_on 20] ''UTC'' True ''batch-1'')))
     = [Some ''batch-1'', Some ''batch-1'']
   \<and> map post_id (committed (snd (schedule_multi late_accepts (example_world []) 10
        [schedule_on 20, schedule_on 20] ''UTC'' True ''batch-1''))) = [100, 101]
   \<and> map_sum id (map connected_account_id \<circ> snd)
        (fst (schedule_multi late_accepts (example_world []) 10
           [schedule_on 20, schedule_on 20] ''UTC'' False ''batch-1'')) = Inr [20, 20]
   \<and> \<not> distinct [20 :: nat, 20]"
  by (simp add: schedule_multi_def examples operations)

end
